theory Spec2Isabelle
  imports Main
begin

section \<open>Python values, errors and built-in operations\<close>

text \<open>
  The notebook works on the framework's message dictionaries and agent objects. A message
  is a Python \<^verbatim>\<open>dict\<close> with string keys; it is modelled as an association list, looked up
  with \<^const>\<open>map_of\<close>. The values a message can hold are Python objects of several types,
  collected in \<open>pyval\<close>. Strings are lists of 8-bit characters; \<^verbatim>\<open>str.lower()\<close> is modelled
  on the ASCII letters (\<open>A\<close> to \<open>Z\<close>) and leaves every other character as it is. On ASCII
  strings, the notebook's agent names and keywords among them, this is what Python does.
  Python also lowers letters outside ASCII, two of them to text with an ASCII letter
  (U+212A to \<open>k\<close>, U+0130 to \<open>i\<close> and a combining dot); on a name or a content with such
  a code point the model and Python differ. The lowering is unfolded below only to
  evaluate it on ASCII strings.
\<close>

datatype pyval =
    PyNone
  | PyBool bool
  | PyInt int
  | PyStr string
  | PyList "pyval list"
  | PyDict "(string \<times> pyval) list"

datatype py_error =
    IndexError
  | KeyError
  | AttributeError
  | TypeError
  | StopIteration
  | FileNotFoundError
  | PermissionError
  | IsADirectoryError
  | UnicodeDecodeError

type_synonym message = "(string \<times> pyval) list"

text \<open>Truth value testing, as \<^verbatim>\<open>if x:\<close> and \<^verbatim>\<open>and\<close> apply it.\<close>

fun truthy :: "pyval \<Rightarrow> bool" where
  "truthy PyNone = False"
| "truthy (PyBool b) = b"
| "truthy (PyInt i) = (i \<noteq> 0)"
| "truthy (PyStr s) = (s \<noteq> [])"
| "truthy (PyList xs) = (xs \<noteq> [])"
| "truthy (PyDict kvs) = (kvs \<noteq> [])"

text \<open>\<^verbatim>\<open>d.get(key, default)\<close>: never raises.\<close>

definition dict_get :: "message \<Rightarrow> string \<Rightarrow> pyval \<Rightarrow> pyval" where
  "dict_get d k dflt = (case map_of d k of None \<Rightarrow> dflt | Some v \<Rightarrow> v)"

text \<open>\<^verbatim>\<open>x[key]\<close>: raises \<^verbatim>\<open>KeyError\<close> on a dict without the key, \<^verbatim>\<open>TypeError\<close> on \<^verbatim>\<open>None\<close>.\<close>

fun subscript :: "pyval \<Rightarrow> string \<Rightarrow> py_error + pyval" where
  "subscript (PyDict d) k = (case map_of d k of None \<Rightarrow> Inl KeyError | Some v \<Rightarrow> Inr v)"
| "subscript _ k = Inl TypeError"

text \<open>\<^verbatim>\<open>xs[i]\<close> on a list, negative indices counting from the end.\<close>

definition list_index :: "'a list \<Rightarrow> int \<Rightarrow> py_error + 'a" where
  "list_index xs i =
     (if 0 \<le> i \<and> i < int (length xs) then Inr (xs ! nat i)
      else if - int (length xs) \<le> i \<and> i < 0 then Inr (xs ! nat (int (length xs) + i))
      else Inl IndexError)"

text \<open>\<^verbatim>\<open>str.lower()\<close> on ASCII text.\<close>

definition lower_char :: "char \<Rightarrow> char" where
  "lower_char c =
     (let n = (of_char c :: nat) in if 65 \<le> n \<and> n \<le> 90 then char_of (n + 32) else c)"

definition str_lower :: "string \<Rightarrow> string" where
  "str_lower s = map lower_char s"

text \<open>
  \<^verbatim>\<open>x.lower()\<close> on an arbitrary object: only a string has the method, every other value
  of a message raises \<^verbatim>\<open>AttributeError\<close>.
\<close>

fun attr_lower :: "pyval \<Rightarrow> py_error + string" where
  "attr_lower (PyStr s) = Inr (str_lower s)"
| "attr_lower _ = Inl AttributeError"

text \<open>\<^verbatim>\<open>sub in s\<close> on strings: \<open>sub\<close> occurs in \<open>s\<close> at some position.\<close>

fun startswith :: "string \<Rightarrow> string \<Rightarrow> bool" where
  "startswith s [] = True"
| "startswith [] (p # ps) = False"
| "startswith (c # cs) (p # ps) = (c = p \<and> startswith cs ps)"

fun str_contains :: "string \<Rightarrow> string \<Rightarrow> bool" where
  "str_contains sub [] = (sub = [])"
| "str_contains sub (c # cs) = (startswith (c # cs) sub \<or> str_contains sub cs)"

section \<open>Termination policy\<close>

text \<open>
  \<^verbatim>\<open>
  def termination_message(msg: str) -> bool:
      content = msg.get("content", "").lower()
      return "terminate" in content
  \<close>
\<close>

definition termination_message :: "message \<Rightarrow> py_error + bool" where
  "termination_message msg =
     (case attr_lower (dict_get msg ''content'' (PyStr '''')) of
        Inl e \<Rightarrow> Inl e
      | Inr content \<Rightarrow> Inr (str_contains ''terminate'' content))"

section \<open>Agents and the group chat\<close>

text \<open>
  Of a framework agent the notebook reads the name only; the record also keeps the
  model an agent is configured with (\<open>None\<close> for \<^verbatim>\<open>llm_config=False\<close>), so that agents
  of one name can differ. A group chat holds its participants and the transcript. The
  speaker selection returns either an agent or the string \<^verbatim>\<open>'auto'\<close>.
\<close>

record agent =
  name :: string
  llm_config :: "string option"

record group_chat =
  agents :: "agent list"
  messages :: "message list"

datatype speaker_choice = Speaker agent | Auto

text \<open>
  \<^verbatim>\<open>next(agent for agent in groupchat.agents if P(agent))\<close>: the first agent of the list
  that satisfies \<open>P\<close>; \<^verbatim>\<open>StopIteration\<close> when there is none.
\<close>

definition next_agent :: "(agent \<Rightarrow> bool) \<Rightarrow> agent list \<Rightarrow> py_error + speaker_choice" where
  "next_agent P as = (case find P as of None \<Rightarrow> Inl StopIteration | Some a \<Rightarrow> Inr (Speaker a))"

section \<open>Speaker selection\<close>

text \<open>
  \<^verbatim>\<open>
  penultimate_message = groupchat.messages[-2] if len(groupchat.messages) > 1 else None
  penultimate_speaker_name = penultimate_message['name'] if penultimate_message else None
  \<close>
  An empty dictionary is false, so it yields \<^verbatim>\<open>None\<close> as well.
\<close>

definition penultimate_message :: "group_chat \<Rightarrow> pyval" where
  "penultimate_message groupchat =
     (if length (messages groupchat) > 1
      then PyDict (messages groupchat ! (length (messages groupchat) - 2))
      else PyNone)"

definition penultimate_speaker_name :: "group_chat \<Rightarrow> py_error + pyval" where
  "penultimate_speaker_name groupchat =
     (if truthy (penultimate_message groupchat)
      then subscript (penultimate_message groupchat) ''name''
      else Inr PyNone)"

text \<open>
  \<^verbatim>\<open>
  def custom_speaker_selection(last_speaker, groupchat):
      agents_to_check = ["cv analyser", "skills extractor", "courses recommender"]
      last_message = groupchat.messages[-1]
      penultimate_message = ...
      last_speaker_name = last_speaker.name.lower()
      penultimate_speaker_name = ...
      if last_message.get("tool_calls", ""):
          return next(agent for agent in groupchat.agents if agent.name == "User")
      if last_speaker_name == "user" and penultimate_speaker_name
         and penultimate_speaker_name.lower() not in ["user", "resolution checker agent"]:
          return next(agent for agent in groupchat.agents
                      if agent.name == penultimate_speaker_name)
      if last_speaker_name in agents_to_check:
          return next(agent for agent in groupchat.agents
                      if agent.name == "Resolution Checker Agent")
      return 'auto'
  \<close>
  The statements run in the source's order: indexing the last message comes first, the
  lookup of the penultimate speaker's name before any routing rule. The middle rule's
  \<^verbatim>\<open>and\<close> chain stops at its first false operand, so \<^verbatim>\<open>.lower()\<close> is only called on a
  true value.
\<close>

definition custom_speaker_selection :: "agent \<Rightarrow> group_chat \<Rightarrow> py_error + speaker_choice" where
  "custom_speaker_selection last_speaker groupchat =
     (let agents_to_check = [''cv analyser'', ''skills extractor'', ''courses recommender''] in
      case list_index (messages groupchat) (- 1) of
        Inl e \<Rightarrow> Inl e
      | Inr last_message \<Rightarrow>
          (let last_speaker_name = str_lower (name last_speaker) in
           case penultimate_speaker_name groupchat of
             Inl e \<Rightarrow> Inl e
           | Inr penultimate_name \<Rightarrow>
               if truthy (dict_get last_message ''tool_calls'' (PyStr ''''))
               then next_agent (\<lambda>agent. name agent = ''User'') (agents groupchat)
               else
                 (case (if last_speaker_name = ''user'' \<and> truthy penultimate_name
                        then (case attr_lower penultimate_name of
                                Inl e \<Rightarrow> Inl e
                              | Inr l \<Rightarrow> Inr (l \<notin> set [''user'', ''resolution checker agent'']))
                        else Inr False) of
                    Inl e \<Rightarrow> Inl e
                  | Inr True \<Rightarrow>
                      next_agent (\<lambda>agent. PyStr (name agent) = penultimate_name)
                        (agents groupchat)
                  | Inr False \<Rightarrow>
                      if last_speaker_name \<in> set agents_to_check
                      then next_agent (\<lambda>agent. name agent = ''Resolution Checker Agent'')
                             (agents groupchat)
                      else Inr Auto)))"

section \<open>The file-reading tool\<close>

text \<open>
  \<^verbatim>\<open>
  def read_txt(path: str) -> str:
      with open(path, "r") as file:
          return file.read()
  \<close>
  The tool opens the file in text mode, without \<^verbatim>\<open>encoding\<close> and without \<^verbatim>\<open>newline\<close>, and
  reads it with \<^verbatim>\<open>read()\<close>, that is, with the default size \<open>-1\<close>. What Python does then
  is modelled on a platform that holds the files as byte sequences and has a default
  encoding, a parameter since the notebook fixes none:
  \<^item> \<^verbatim>\<open>open\<close> raises when the path names nothing, a directory, or a file the process may
    not read, and yields a file object on the file's bytes otherwise;
  \<^item> \<^verbatim>\<open>read(n)\<close> decodes the bytes, which may raise, translates line endings as the
    default \<^verbatim>\<open>newline=None\<close> prescribes for input (\<open>CR LF\<close> and a lone \<open>CR\<close> become
    \<open>LF\<close>), and returns all of the text when \<open>n\<close> is negative, its first \<open>n\<close> characters
    otherwise;
  \<^item> leaving the \<^verbatim>\<open>with\<close> block closes the file and lets an exception of the body pass.
\<close>

datatype node = RegularFile "char list" | Directory | NoPermission

record platform =
  files :: "(string \<times> node) list"
  decode :: "char list \<Rightarrow> py_error + string"

datatype text_file = TextFile "char list"

definition open_text :: "platform \<Rightarrow> string \<Rightarrow> py_error + text_file" where
  "open_text pf path =
     (case map_of (files pf) path of
        None \<Rightarrow> Inl FileNotFoundError
      | Some Directory \<Rightarrow> Inl IsADirectoryError
      | Some NoPermission \<Rightarrow> Inl PermissionError
      | Some (RegularFile bytes) \<Rightarrow> Inr (TextFile bytes))"

fun universal_newlines :: "string \<Rightarrow> string" where
  "universal_newlines [] = []"
| "universal_newlines [c] = (if c = CHR 0x0D then [CHR 0x0A] else [c])"
| "universal_newlines (c # d # cs) =
     (if c = CHR 0x0D \<and> d = CHR 0x0A then CHR 0x0A # universal_newlines cs
      else if c = CHR 0x0D then CHR 0x0A # universal_newlines (d # cs)
      else c # universal_newlines (d # cs))"

fun file_read :: "platform \<Rightarrow> text_file \<Rightarrow> int \<Rightarrow> py_error + string" where
  "file_read pf (TextFile bytes) n =
     (case decode pf bytes of
        Inl e \<Rightarrow> Inl e
      | Inr decoded \<Rightarrow>
          Inr (if n < 0 then universal_newlines decoded
               else take (nat n) (universal_newlines decoded)))"

definition read_txt :: "platform \<Rightarrow> string \<Rightarrow> py_error + string" where
  "read_txt pf path =
     (case open_text pf path of
        Inl e \<Rightarrow> Inl e
      | Inr file \<Rightarrow> file_read pf file (- 1))"

section \<open>The notebook's configuration\<close>

text \<open>The five agents, by constructor call, each with its name and model.\<close>

definition user_proxy :: agent where
  "user_proxy = \<lparr>name = ''User'', llm_config = None\<rparr>"

definition cv_analyser :: agent where
  "cv_analyser = \<lparr>name = ''CV Analyser'', llm_config = Some ''llama-3.1-8b-instant''\<rparr>"

definition skills_extractor :: agent where
  "skills_extractor =
     \<lparr>name = ''Skills Extractor'', llm_config = Some ''llama-3.1-8b-instant''\<rparr>"

definition courses_recommender :: agent where
  "courses_recommender =
     \<lparr>name = ''Courses recommender'', llm_config = Some ''llama-3.1-8b-instant''\<rparr>"

definition resolution_checker :: agent where
  "resolution_checker =
     \<lparr>name = ''Resolution Checker Agent'', llm_config = Some ''gemma2-9b-it''\<rparr>"

text \<open>
  The three \<^verbatim>\<open>register_function(read_txt, caller=..., executor=user_proxy, name=...)\<close>
  calls, in the notebook's order.
\<close>

record registration =
  func :: string
  caller :: agent
  executor :: agent
  tool_name :: string

definition registered_functions :: "registration list" where
  "registered_functions =
     [\<lparr>func = ''read_txt'', caller = cv_analyser, executor = user_proxy,
        tool_name = ''read_txt_cv_analyse''\<rparr>,
      \<lparr>func = ''read_txt'', caller = courses_recommender, executor = user_proxy,
        tool_name = ''read_txt_courses''\<rparr>,
      \<lparr>func = ''read_txt'', caller = skills_extractor, executor = user_proxy,
        tool_name = ''read_txt_cv_skills''\<rparr>]"

text \<open>\<^verbatim>\<open>groupchat = autogen.GroupChat(agents=[...], messages=[], ...)\<close>\<close>

definition groupchat :: group_chat where
  "groupchat =
     \<lparr>agents = [user_proxy, cv_analyser, skills_extractor, courses_recommender,
                resolution_checker],
      messages = []\<rparr>"

section \<open>Example transcripts\<close>

text \<open>
  The messages of the notebook's recorded run (speakers \<^verbatim>\<open>User\<close>,
  \<^verbatim>\<open>Courses recommender\<close>, \<^verbatim>\<open>User\<close>, \<^verbatim>\<open>Courses recommender\<close>,
  \<^verbatim>\<open>Resolution Checker Agent\<close>), texts shortened, and a few variants: a request that
  carries no \<^verbatim>\<open>"name"\<close>, as a seeded transcript may hold, an analysis, and a verdict that
  asks to go on.
\<close>

definition request :: message where
  "request =
     [(''content'', PyStr ''Recommend courses for the profile data/cv.txt''),
      (''role'', PyStr ''user''), (''name'', PyStr ''User'')]"

definition request_unnamed :: message where
  "request_unnamed =
     [(''content'', PyStr ''Recommend courses for the profile data/cv.txt''),
      (''role'', PyStr ''user'')]"

definition tool_call :: message where
  "tool_call =
     [(''content'', PyNone),
      (''tool_calls'',
        PyList [PyDict [(''id'', PyStr ''call_51mv''), (''type'', PyStr ''function''),
                        (''function'', PyDict [(''name'', PyStr ''read_txt_courses''),
                                               (''arguments'', PyStr ''data/courses.txt'')])]]),
      (''role'', PyStr ''assistant''), (''name'', PyStr ''Courses recommender'')]"

definition tool_response :: message where
  "tool_response =
     [(''content'', PyStr ''1. Machine Learning - Machine Learning Crash Course''),
      (''role'', PyStr ''tool''), (''name'', PyStr ''User'')]"

definition recommendation :: message where
  "recommendation =
     [(''content'', PyStr ''Based on the profile, we can recommend the following courses''),
      (''role'', PyStr ''user''), (''name'', PyStr ''Courses recommender'')]"

definition analysis :: message where
  "analysis =
     [(''content'', PyStr ''The profile shows experience in generative AI''),
      (''role'', PyStr ''user''), (''name'', PyStr ''CV Analyser'')]"

definition verdict_continue :: message where
  "verdict_continue =
     [(''content'', PyStr ''CONTINUE''), (''role'', PyStr ''user''),
      (''name'', PyStr ''Resolution Checker Agent'')]"

definition verdict_terminate :: message where
  "verdict_terminate =
     [(''content'', PyStr ''TERMINATE Based on the provided profile, here are some courses''),
      (''role'', PyStr ''user''), (''name'', PyStr ''Resolution Checker Agent'')]"

text \<open>A group chat of the four assistants only, without the user proxy, and one without
  the resolution checker.\<close>

definition assistants_only :: "agent list" where
  "assistants_only = [cv_analyser, skills_extractor, courses_recommender, resolution_checker]"

definition no_checker :: "agent list" where
  "no_checker = [user_proxy, cv_analyser, skills_extractor, courses_recommender]"

text \<open>
  A platform with the notebook's data directory and its two data files, a copy of the
  course list saved with \<open>CR LF\<close> line ends, and the cover image, which opens but is no
  text. Its encoding is ASCII, which the common default encodings agree with on the bytes
  below 128.
\<close>

definition ascii_codec :: "char list \<Rightarrow> py_error + string" where
  "ascii_codec bytes =
     (if list_all (\<lambda>b. (of_char b :: nat) < 128) bytes then Inr bytes
      else Inl UnicodeDecodeError)"

definition demo_platform :: platform where
  "demo_platform =
     \<lparr>files =
        [(''data'', Directory),
         (''data/cv.txt'', RegularFile ''Daniel Puente Viejo''),
         (''data/courses.txt'', RegularFile ''1. Machine Learning''),
         (''data/courses_crlf.txt'',
            RegularFile [CHR ''1'', CHR ''.'', CHR 0x0D, CHR 0x0A, CHR ''2'', CHR ''.'']),
         (''imgs/cover_page.png'', RegularFile [CHR 0x89, CHR ''P'', CHR ''N'', CHR ''G''])],
      decode = ascii_codec\<rparr>"

section \<open>Properties of the built-in operations\<close>

lemma startswith_iff: "startswith s p \<longleftrightarrow> (\<exists>r. s = p @ r)"
  by (induction s p rule: startswith.induct) auto

lemma str_contains_iff: "str_contains sub s \<longleftrightarrow> (\<exists>pre post. s = pre @ sub @ post)"
proof (induction s)
  case Nil
  show ?case by auto
next
  case (Cons c cs)
  show ?case
  proof
    assume "str_contains sub (c # cs)"
    then consider "startswith (c # cs) sub" | "str_contains sub cs" by auto
    then show "\<exists>pre post. c # cs = pre @ sub @ post"
    proof cases
      case 1
      then obtain r where "c # cs = sub @ r" by (auto simp: startswith_iff)
      then have "c # cs = [] @ sub @ r" by simp
      then show ?thesis by blast
    next
      case 2
      then obtain pre post where "cs = pre @ sub @ post" using Cons.IH by auto
      then have "c # cs = (c # pre) @ sub @ post" by simp
      then show ?thesis by blast
    qed
  next
    assume "\<exists>pre post. c # cs = pre @ sub @ post"
    then obtain pre post where eq: "c # cs = pre @ sub @ post" by auto
    show "str_contains sub (c # cs)"
    proof (cases pre)
      case Nil
      with eq have "startswith (c # cs) sub" by (auto simp: startswith_iff)
      then show ?thesis by simp
    next
      case (Cons a pre')
      with eq have "cs = pre' @ sub @ post" by simp
      then have "str_contains sub cs" using Cons.IH by blast
      then show ?thesis by simp
    qed
  qed
qed

lemma list_index_last: "xs \<noteq> [] \<Longrightarrow> list_index xs (- 1) = Inr (last xs)"
proof -
  assume ne: "xs \<noteq> []"
  then have "nat (int (length xs) + - 1) = length xs - 1"
    by (cases xs) simp_all
  moreover have "Suc 0 \<le> length xs"
    using ne by (cases xs) simp_all
  ultimately show ?thesis
    using ne by (simp add: list_index_def last_conv_nth)
qed

lemma list_index_Nil: "list_index [] i = Inl IndexError"
  by (simp add: list_index_def)

lemma next_agent_Some: "find P as = Some a \<Longrightarrow> next_agent P as = Inr (Speaker a)"
  by (simp add: next_agent_def)

lemma next_agent_member: "next_agent P as = Inr (Speaker a) \<Longrightarrow> a \<in> set as \<and> P a"
  by (auto simp: next_agent_def find_Some_iff split: option.splits)

lemma lower_task_names:
  "str_lower ''CV Analyser'' = ''cv analyser''"
  "str_lower ''Skills Extractor'' = ''skills extractor''"
  "str_lower ''Courses recommender'' = ''courses recommender''"
  by code_simp+

section \<open>The lookup of the penultimate speaker\<close>

text \<open>The lookup either yields a value or fails with \<^verbatim>\<open>KeyError\<close>. It fails exactly when
  there is a penultimate message, non-empty and without a \<^verbatim>\<open>"name"\<close> key; it needs two
  messages to yield anything but \<^verbatim>\<open>None\<close>.\<close>

lemma penultimate_speaker_name_cases:
  "penultimate_speaker_name gc = Inl KeyError \<or> (\<exists>v. penultimate_speaker_name gc = Inr v)"
  by (simp add: penultimate_speaker_name_def penultimate_message_def split: option.splits)

lemma penultimate_speaker_name_ok_iff:
  "penultimate_speaker_name gc \<noteq> Inl KeyError \<longleftrightarrow>
     length (messages gc) \<le> 1 \<or>
     messages gc ! (length (messages gc) - 2) = [] \<or>
     map_of (messages gc ! (length (messages gc) - 2)) ''name'' \<noteq> None"
  by (auto simp: penultimate_speaker_name_def penultimate_message_def split: option.splits)

lemma penultimate_speaker_name_single:
  "length (messages gc) \<le> 1 \<Longrightarrow> penultimate_speaker_name gc = Inr PyNone"
  by (simp add: penultimate_speaker_name_def penultimate_message_def)

lemma penultimate_speaker_name_found:
  assumes "2 \<le> length (messages gc)"
    and "map_of (messages gc ! (length (messages gc) - 2)) ''name'' = Some v"
  shows "penultimate_speaker_name gc = Inr v"
proof -
  have "messages gc ! (length (messages gc) - 2) \<noteq> []"
    using assms(2) by auto
  then show ?thesis
    using assms by (simp add: penultimate_speaker_name_def penultimate_message_def)
qed

lemma custom_speaker_selection_member:
  "custom_speaker_selection ls gc = Inr (Speaker a) \<Longrightarrow> a \<in> set (agents gc)"
  by (auto simp: custom_speaker_selection_def Let_def
      split: sum.splits if_splits bool.splits dest: next_agent_member)

section \<open>The termination predicate\<close>

text \<open>
  C1. For a message whose \<^verbatim>\<open>"content"\<close> field is a string \<open>s\<close>, \<open>termination_message\<close>
  returns normally, and returns true exactly when the lowercased \<open>s\<close> contains
  \<^verbatim>\<open>"terminate"\<close> somewhere: any text may stand before and after the occurrence, so there
  is no anchoring and no word boundary.
\<close>

theorem termination_message_substring:
  assumes "map_of msg ''content'' = Some (PyStr s)"
  shows "termination_message msg =
           Inr (\<exists>pre post. str_lower s = pre @ ''terminate'' @ post)"
  using assms by (simp add: termination_message_def dict_get_def str_contains_iff)

theorem termination_message_substring_witness:
  "map_of verdict_terminate ''content''
     = Some (PyStr ''TERMINATE Based on the provided profile, here are some courses'') \<and>
   termination_message verdict_terminate = Inr True"
proof -
  let ?s = "''TERMINATE Based on the provided profile, here are some courses''"
  have c: "map_of verdict_terminate ''content'' = Some (PyStr ?s)"
    by (simp add: verdict_terminate_def)
  have "str_lower ?s
          = [] @ ''terminate'' @ '' based on the provided profile, here are some courses''"
    by code_simp
  then have ex: "\<exists>pre post. str_lower ?s = pre @ ''terminate'' @ post"
    by blast
  show ?thesis
    using termination_message_substring [OF c] ex c by simp
qed

text \<open>
  C8. Without a \<^verbatim>\<open>"content"\<close> key the lookup defaults to the empty string and
  \<open>termination_message\<close> returns false. With a \<^verbatim>\<open>"content"\<close> that is not a string,
  \<^verbatim>\<open>None\<close> for one, \<^verbatim>\<open>.lower()\<close> raises \<^verbatim>\<open>AttributeError\<close>. So the function returns a
  value exactly on the messages whose content is absent or a string.
\<close>

theorem termination_message_total_on_strings:
  "(map_of msg ''content'' = None \<longrightarrow> termination_message msg = Inr False) \<and>
   (map_of msg ''content'' = Some v \<and> (\<forall>s. v \<noteq> PyStr s) \<longrightarrow>
      termination_message msg = Inl AttributeError) \<and>
   ((\<exists>b. termination_message msg = Inr b) \<longleftrightarrow>
      (map_of msg ''content'' = None \<or> (\<exists>s. map_of msg ''content'' = Some (PyStr s))))"
proof (intro conjI impI)
  assume "map_of msg ''content'' = None"
  then show "termination_message msg = Inr False"
    by (simp add: termination_message_def dict_get_def str_lower_def)
next
  assume "map_of msg ''content'' = Some v \<and> (\<forall>s. v \<noteq> PyStr s)"
  then show "termination_message msg = Inl AttributeError"
    by (cases v) (simp_all add: termination_message_def dict_get_def)
next
  show "(\<exists>b. termination_message msg = Inr b) \<longleftrightarrow>
      (map_of msg ''content'' = None \<or> (\<exists>s. map_of msg ''content'' = Some (PyStr s)))"
  proof (cases "map_of msg ''content''")
    case None
    then show ?thesis by (simp add: termination_message_def dict_get_def)
  next
    case (Some w)
    then show ?thesis
      by (cases w) (simp_all add: termination_message_def dict_get_def)
  qed
qed

theorem termination_message_total_on_strings_witness:
  "termination_message [(''role'', PyStr ''user'')] = Inr False \<and>
   termination_message tool_call = Inl AttributeError"
proof -
  have "map_of [(''role'', PyStr ''user'')] ''content'' = None" by simp
  then have a: "termination_message [(''role'', PyStr ''user'')] = Inr False"
    using termination_message_total_on_strings [of "[(''role'', PyStr ''user'')]"] by blast
  have "map_of tool_call ''content'' = Some PyNone \<and> (\<forall>s. PyNone \<noteq> PyStr s)"
    by (simp add: tool_call_def)
  then have b: "termination_message tool_call = Inl AttributeError"
    using termination_message_total_on_strings [of tool_call PyNone] by blast
  from a b show ?thesis by simp
qed

section \<open>The routing rules\<close>

text \<open>
  C2. When the last message of the transcript has a \<^verbatim>\<open>"tool_calls"\<close> field with a true
  (non-empty) value, the lookup of the penultimate speaker's name does not fail with
  \<^verbatim>\<open>KeyError\<close> and the group chat has an agent named \<^verbatim>\<open>User\<close>, the selection returns the
  first such agent, whoever spoke last and whoever spoke before: the rule comes before
  all other routing rules.
\<close>

theorem tool_call_routes_to_user:
  assumes "messages gc \<noteq> []"
    and "map_of (last (messages gc)) ''tool_calls'' = Some v"
    and "truthy v"
    and "penultimate_speaker_name gc \<noteq> Inl KeyError"
    and "find (\<lambda>a. name a = ''User'') (agents gc) = Some u"
  shows "custom_speaker_selection ls gc = Inr (Speaker u)"
proof -
  obtain pn where "penultimate_speaker_name gc = Inr pn"
    using assms(4) penultimate_speaker_name_cases [of gc] by auto
  then show ?thesis
    using assms
    by (simp add: custom_speaker_selection_def list_index_last dict_get_def next_agent_Some)
qed

theorem tool_call_routes_to_user_witness:
  "map_of tool_call ''tool_calls'' \<noteq> None \<and>
   penultimate_speaker_name (groupchat\<lparr>messages := [request, tool_call]\<rparr>) = Inr (PyStr ''User'') \<and>
   custom_speaker_selection courses_recommender (groupchat\<lparr>messages := [request, tool_call]\<rparr>)
     = Inr (Speaker user_proxy)"
proof -
  let ?gc = "groupchat\<lparr>messages := [request, tool_call]\<rparr>"
  let ?v = "PyList [PyDict [(''id'', PyStr ''call_51mv''), (''type'', PyStr ''function''),
                        (''function'', PyDict [(''name'', PyStr ''read_txt_courses''),
                                               (''arguments'', PyStr ''data/courses.txt'')])]]"
  have h1: "messages ?gc \<noteq> []" by simp
  have h2: "map_of (last (messages ?gc)) ''tool_calls'' = Some ?v"
    by (simp add: tool_call_def)
  have h3: "truthy ?v" by simp
  have pn: "penultimate_speaker_name ?gc = Inr (PyStr ''User'')"
    by (simp add: penultimate_speaker_name_def penultimate_message_def request_def)
  then have h4: "penultimate_speaker_name ?gc \<noteq> Inl KeyError" by simp
  have h5: "find (\<lambda>a. name a = ''User'') (agents ?gc) = Some user_proxy"
    by (simp add: groupchat_def user_proxy_def)
  have "map_of tool_call ''tool_calls'' \<noteq> None"
    by (simp add: tool_call_def)
  then show ?thesis
    using tool_call_routes_to_user [OF h1 h2 h3 h4 h5, of courses_recommender] pn by simp
qed

text \<open>
  Neither of the two added hypotheses can be dropped. The name of the penultimate speaker
  is looked up before the tool call is tested, so a tool call that follows a message
  without \<^verbatim>\<open>"name"\<close> ends in \<^verbatim>\<open>KeyError\<close>; and in a group chat without an agent named
  \<^verbatim>\<open>User\<close> the generator is exhausted and \<^verbatim>\<open>next\<close> raises \<^verbatim>\<open>StopIteration\<close>.
\<close>

theorem tool_call_counterexample:
  "truthy (dict_get tool_call ''tool_calls'' (PyStr '''')) \<and>
   custom_speaker_selection courses_recommender
     (groupchat\<lparr>messages := [request_unnamed, tool_call]\<rparr>) = Inl KeyError \<and>
   custom_speaker_selection courses_recommender
     \<lparr>agents = assistants_only, messages = [request, tool_call]\<rparr> = Inl StopIteration"
proof -
  have a: "truthy (dict_get tool_call ''tool_calls'' (PyStr ''''))"
    by code_simp
  have b: "custom_speaker_selection courses_recommender
     (groupchat\<lparr>messages := [request_unnamed, tool_call]\<rparr>) = Inl KeyError"
    by code_simp
  have c: "custom_speaker_selection courses_recommender
     \<lparr>agents = assistants_only, messages = [request, tool_call]\<rparr> = Inl StopIteration"
    by code_simp
  from a b c show ?thesis by simp
qed

text \<open>
  C3. When the transcript has at least two messages, the last message has no tool call,
  the last speaker is the \<^verbatim>\<open>User\<close> (its name, lowercased, is \<^verbatim>\<open>user\<close>), the penultimate
  message names one of the three task agents (\<^verbatim>\<open>CV Analyser\<close>, \<^verbatim>\<open>Skills Extractor\<close>,
  \<^verbatim>\<open>Courses recommender\<close>) as its speaker and the group chat has an agent of that name,
  the selection returns the first agent of that name: it routes back to the speaker of
  the penultimate message.
\<close>

theorem user_routes_back_to_task_agent:
  assumes "2 \<le> length (messages gc)"
    and "\<not> truthy (dict_get (last (messages gc)) ''tool_calls'' (PyStr ''''))"
    and "str_lower (name ls) = ''user''"
    and "map_of (messages gc ! (length (messages gc) - 2)) ''name'' = Some (PyStr n)"
    and "n \<in> {''CV Analyser'', ''Skills Extractor'', ''Courses recommender''}"
    and "find (\<lambda>a. name a = n) (agents gc) = Some a"
  shows "custom_speaker_selection ls gc = Inr (Speaker a)"
proof -
  have ne: "messages gc \<noteq> []"
    using assms(1) by auto
  have pn: "penultimate_speaker_name gc = Inr (PyStr n)"
    using assms(1,4) by (rule penultimate_speaker_name_found)
  have n: "n \<noteq> [] \<and> str_lower n \<noteq> ''user'' \<and> str_lower n \<noteq> ''resolution checker agent''"
    using assms(5) by (auto simp: lower_task_names)
  have "next_agent (\<lambda>agent. PyStr (name agent) = PyStr n) (agents gc) = Inr (Speaker a)"
    using assms(6) by (simp add: next_agent_def)
  then show ?thesis
    using ne pn n assms(2,3)
    by (simp add: custom_speaker_selection_def list_index_last)
qed

theorem user_routes_back_to_task_agent_witness:
  "str_lower (name user_proxy) = ''user'' \<and>
   custom_speaker_selection user_proxy
     (groupchat\<lparr>messages := [request, tool_call, tool_response]\<rparr>)
     = Inr (Speaker courses_recommender)"
proof -
  let ?gc = "groupchat\<lparr>messages := [request, tool_call, tool_response]\<rparr>"
  have h1: "2 \<le> length (messages ?gc)" by simp
  have h2: "\<not> truthy (dict_get (last (messages ?gc)) ''tool_calls'' (PyStr ''''))"
    by (simp add: tool_response_def dict_get_def)
  have h3: "str_lower (name user_proxy) = ''user''"
    by code_simp
  have h4: "map_of (messages ?gc ! (length (messages ?gc) - 2)) ''name''
              = Some (PyStr ''Courses recommender'')"
    by (simp add: tool_call_def)
  have h5: "''Courses recommender'' \<in> {''CV Analyser'', ''Skills Extractor'', ''Courses recommender''}"
    by simp
  have h6: "find (\<lambda>a. name a = ''Courses recommender'') (agents ?gc) = Some courses_recommender"
    by (simp add: groupchat_def user_proxy_def cv_analyser_def skills_extractor_def
        courses_recommender_def)
  show ?thesis
    using user_routes_back_to_task_agent [OF h1 h2 h3 h4 h5 h6] h3 by simp
qed

text \<open>
  The rule asks for the \<^verbatim>\<open>User\<close> as last speaker. After the courses recommender has
  answered and the resolution checker has replied \<^verbatim>\<open>CONTINUE\<close>, the penultimate speaker
  is a task agent and the last message has no tool call, yet the selection does not go
  back to the recommender: it returns \<^verbatim>\<open>'auto'\<close>.
\<close>

theorem route_back_counterexample:
  "map_of recommendation ''name'' = Some (PyStr ''Courses recommender'') \<and>
   \<not> truthy (dict_get verdict_continue ''tool_calls'' (PyStr '''')) \<and>
   custom_speaker_selection resolution_checker
     (groupchat\<lparr>messages := [request, recommendation, verdict_continue]\<rparr>) = Inr Auto"
proof -
  have a: "map_of recommendation ''name'' = Some (PyStr ''Courses recommender'')"
    by (simp add: recommendation_def)
  have b: "\<not> truthy (dict_get verdict_continue ''tool_calls'' (PyStr ''''))"
    by (simp add: verdict_continue_def dict_get_def)
  have c: "custom_speaker_selection resolution_checker
     (groupchat\<lparr>messages := [request, recommendation, verdict_continue]\<rparr>) = Inr Auto"
    by code_simp
  from a b c show ?thesis by simp
qed

text \<open>
  C4. When the last message has no tool call, the last speaker's name, lowercased, is one
  of \<^verbatim>\<open>cv analyser\<close>, \<^verbatim>\<open>skills extractor\<close> and \<^verbatim>\<open>courses recommender\<close>, the lookup of
  the penultimate speaker's name does not fail with \<^verbatim>\<open>KeyError\<close> and the group chat has
  an agent named \<^verbatim>\<open>Resolution Checker Agent\<close>, the selection returns the first such agent.
\<close>

theorem task_agent_routes_to_checker:
  assumes "messages gc \<noteq> []"
    and "\<not> truthy (dict_get (last (messages gc)) ''tool_calls'' (PyStr ''''))"
    and "str_lower (name ls) \<in> {''cv analyser'', ''skills extractor'', ''courses recommender''}"
    and "penultimate_speaker_name gc \<noteq> Inl KeyError"
    and "find (\<lambda>a. name a = ''Resolution Checker Agent'') (agents gc) = Some c"
  shows "custom_speaker_selection ls gc = Inr (Speaker c)"
proof -
  obtain pn where pn: "penultimate_speaker_name gc = Inr pn"
    using assms(4) penultimate_speaker_name_cases [of gc] by auto
  have nu: "str_lower (name ls) \<noteq> ''user''"
    using assms(3) by auto
  show ?thesis
    using assms(1,2,3,5) pn nu
    by (simp add: custom_speaker_selection_def list_index_last next_agent_Some)
qed

theorem task_agent_routes_to_checker_witness:
  "str_lower (name courses_recommender) = ''courses recommender'' \<and>
   custom_speaker_selection courses_recommender
     (groupchat\<lparr>messages := [request, tool_call, tool_response, recommendation]\<rparr>)
     = Inr (Speaker resolution_checker)"
proof -
  let ?gc = "groupchat\<lparr>messages := [request, tool_call, tool_response, recommendation]\<rparr>"
  have h1: "messages ?gc \<noteq> []" by simp
  have h2: "\<not> truthy (dict_get (last (messages ?gc)) ''tool_calls'' (PyStr ''''))"
    by (simp add: recommendation_def dict_get_def)
  have l: "str_lower (name courses_recommender) = ''courses recommender''"
    by code_simp
  then have h3: "str_lower (name courses_recommender)
                   \<in> {''cv analyser'', ''skills extractor'', ''courses recommender''}"
    by simp
  have "penultimate_speaker_name ?gc = Inr (PyStr ''User'')"
    by (simp add: penultimate_speaker_name_def penultimate_message_def tool_response_def)
  then have h4: "penultimate_speaker_name ?gc \<noteq> Inl KeyError" by simp
  have h5: "find (\<lambda>a. name a = ''Resolution Checker Agent'') (agents ?gc) = Some resolution_checker"
    by (simp add: groupchat_def user_proxy_def cv_analyser_def skills_extractor_def
        courses_recommender_def resolution_checker_def)
  show ?thesis
    using task_agent_routes_to_checker [OF h1 h2 h3 h4 h5] l by simp
qed

text \<open>
  Without the two added hypotheses the rule can fail: an analysis that follows a message
  without \<^verbatim>\<open>"name"\<close> ends in \<^verbatim>\<open>KeyError\<close>, and a group chat without the resolution
  checker in \<^verbatim>\<open>StopIteration\<close>.
\<close>

theorem checker_route_counterexample:
  "str_lower (name cv_analyser) = ''cv analyser'' \<and>
   \<not> truthy (dict_get analysis ''tool_calls'' (PyStr '''')) \<and>
   custom_speaker_selection cv_analyser
     (groupchat\<lparr>messages := [request_unnamed, analysis]\<rparr>) = Inl KeyError \<and>
   custom_speaker_selection cv_analyser
     \<lparr>agents = no_checker, messages = [request, analysis]\<rparr> = Inl StopIteration"
proof -
  have a: "str_lower (name cv_analyser) = ''cv analyser''"
    by code_simp
  have b: "\<not> truthy (dict_get analysis ''tool_calls'' (PyStr ''''))"
    by (simp add: analysis_def dict_get_def)
  have c: "custom_speaker_selection cv_analyser
     (groupchat\<lparr>messages := [request_unnamed, analysis]\<rparr>) = Inl KeyError"
    by code_simp
  have d: "custom_speaker_selection cv_analyser
     \<lparr>agents = no_checker, messages = [request, analysis]\<rparr> = Inl StopIteration"
    by code_simp
  from a b c d show ?thesis by simp
qed

text \<open>
  C5. When the lookup of the penultimate speaker's name yields a value and none of the
  three routing conditions holds, the selection returns \<^verbatim>\<open>'auto'\<close>: the last message
  has no tool call; if the last speaker is the \<^verbatim>\<open>User\<close>, the penultimate speaker's name
  is missing or empty, or is a string that reads \<^verbatim>\<open>user\<close> or
  \<^verbatim>\<open>resolution checker agent\<close> in lowercase; and the last speaker's name, lowercased, is
  none of the three task agents'.
\<close>

theorem no_rule_defers_to_auto:
  assumes "messages gc \<noteq> []"
    and "\<not> truthy (dict_get (last (messages gc)) ''tool_calls'' (PyStr ''''))"
    and "penultimate_speaker_name gc = Inr pn"
    and "str_lower (name ls) = ''user'' \<longrightarrow>
           \<not> truthy pn \<or>
           (\<exists>s. pn = PyStr s \<and> str_lower s \<in> {''user'', ''resolution checker agent''})"
    and "str_lower (name ls) \<notin> {''cv analyser'', ''skills extractor'', ''courses recommender''}"
  shows "custom_speaker_selection ls gc = Inr Auto"
proof (cases "str_lower (name ls) = ''user'' \<and> truthy pn")
  case True
  then obtain s where "pn = PyStr s"
    and "str_lower s \<in> {''user'', ''resolution checker agent''}"
    using assms(4) by auto
  then show ?thesis
    using assms(1,2,3,5) True
    by (auto simp: custom_speaker_selection_def list_index_last)
next
  case False
  then show ?thesis
    using assms(1,2,3,5)
    by (auto simp: custom_speaker_selection_def list_index_last)
qed

theorem no_rule_defers_to_auto_witness:
  "penultimate_speaker_name
     (groupchat\<lparr>messages := [request, recommendation, verdict_continue]\<rparr>)
     = Inr (PyStr ''Courses recommender'') \<and>
   custom_speaker_selection resolution_checker
     (groupchat\<lparr>messages := [request, recommendation, verdict_continue]\<rparr>) = Inr Auto"
proof -
  let ?gc = "groupchat\<lparr>messages := [request, recommendation, verdict_continue]\<rparr>"
  have h1: "messages ?gc \<noteq> []" by simp
  have h2: "\<not> truthy (dict_get (last (messages ?gc)) ''tool_calls'' (PyStr ''''))"
    by (simp add: verdict_continue_def dict_get_def)
  have h3: "penultimate_speaker_name ?gc = Inr (PyStr ''Courses recommender'')"
    by (simp add: penultimate_speaker_name_def penultimate_message_def recommendation_def)
  have l: "str_lower (name resolution_checker) = ''resolution checker agent''"
    by code_simp
  have h4: "str_lower (name resolution_checker) = ''user'' \<longrightarrow>
           \<not> truthy (PyStr ''Courses recommender'') \<or>
           (\<exists>s. PyStr ''Courses recommender'' = PyStr s \<and>
                str_lower s \<in> {''user'', ''resolution checker agent''})"
    using l by simp
  have h5: "str_lower (name resolution_checker)
              \<notin> {''cv analyser'', ''skills extractor'', ''courses recommender''}"
    using l by simp
  show ?thesis
    using no_rule_defers_to_auto [OF h1 h2 h3 h4 h5] h3 by simp
qed

text \<open>
  The hypothesis on the lookup is needed: after a message without \<^verbatim>\<open>"name"\<close>, a verdict
  of the resolution checker meets none of the three routing conditions, and the selection
  ends in \<^verbatim>\<open>KeyError\<close> instead of returning \<^verbatim>\<open>'auto'\<close>.
\<close>

theorem auto_counterexample:
  "\<not> truthy (dict_get verdict_continue ''tool_calls'' (PyStr '''')) \<and>
   str_lower (name resolution_checker) = ''resolution checker agent'' \<and>
   custom_speaker_selection resolution_checker
     (groupchat\<lparr>messages := [request_unnamed, verdict_continue]\<rparr>) = Inl KeyError"
proof -
  have a: "\<not> truthy (dict_get verdict_continue ''tool_calls'' (PyStr ''''))"
    by (simp add: verdict_continue_def dict_get_def)
  have b: "str_lower (name resolution_checker) = ''resolution checker agent''"
    by code_simp
  have c: "custom_speaker_selection resolution_checker
     (groupchat\<lparr>messages := [request_unnamed, verdict_continue]\<rparr>) = Inl KeyError"
    by code_simp
  from a b c show ?thesis by simp
qed

section \<open>Transcripts the selection is defined on\<close>

text \<open>
  C9. The selection indexes the last message before anything else: on an empty transcript
  it raises \<^verbatim>\<open>IndexError\<close>, so it returns a value only on a non-empty one. On a
  transcript of exactly one message the penultimate speaker's name is \<^verbatim>\<open>None\<close>, and the
  result is the one of the tool-call rule, the resolution-checker rule and the default
  alone: the rule that routes back to the previous speaker never applies.
\<close>

theorem custom_speaker_selection_needs_messages:
  "(messages gc = [] \<longrightarrow> custom_speaker_selection ls gc = Inl IndexError) \<and>
   ((\<exists>r. custom_speaker_selection ls gc = Inr r) \<longrightarrow> messages gc \<noteq> []) \<and>
   (length (messages gc) = 1 \<longrightarrow>
      penultimate_speaker_name gc = Inr PyNone \<and>
      custom_speaker_selection ls gc =
        (if truthy (dict_get (last (messages gc)) ''tool_calls'' (PyStr ''''))
         then next_agent (\<lambda>a. name a = ''User'') (agents gc)
         else if str_lower (name ls) \<in>
                   {''cv analyser'', ''skills extractor'', ''courses recommender''}
         then next_agent (\<lambda>a. name a = ''Resolution Checker Agent'') (agents gc)
         else Inr Auto))"
proof (intro conjI impI)
  assume "messages gc = []"
  then show "custom_speaker_selection ls gc = Inl IndexError"
    by (simp add: custom_speaker_selection_def list_index_Nil)
next
  assume "\<exists>r. custom_speaker_selection ls gc = Inr r"
  then show "messages gc \<noteq> []"
    by (auto simp: custom_speaker_selection_def list_index_Nil)
next
  assume "length (messages gc) = 1"
  then show "penultimate_speaker_name gc = Inr PyNone"
    by (simp add: penultimate_speaker_name_single)
next
  assume one: "length (messages gc) = 1"
  then have ne: "messages gc \<noteq> []" by auto
  have pn: "penultimate_speaker_name gc = Inr PyNone"
    using one by (simp add: penultimate_speaker_name_single)
  show "custom_speaker_selection ls gc =
        (if truthy (dict_get (last (messages gc)) ''tool_calls'' (PyStr ''''))
         then next_agent (\<lambda>a. name a = ''User'') (agents gc)
         else if str_lower (name ls) \<in>
                   {''cv analyser'', ''skills extractor'', ''courses recommender''}
         then next_agent (\<lambda>a. name a = ''Resolution Checker Agent'') (agents gc)
         else Inr Auto)"
    using ne pn by (simp add: custom_speaker_selection_def list_index_last)
qed

theorem custom_speaker_selection_needs_messages_witness:
  "custom_speaker_selection user_proxy groupchat = Inl IndexError \<and>
   penultimate_speaker_name (groupchat\<lparr>messages := [request]\<rparr>) = Inr PyNone \<and>
   custom_speaker_selection user_proxy (groupchat\<lparr>messages := [request]\<rparr>) = Inr Auto"
proof -
  let ?gc = "groupchat\<lparr>messages := [request]\<rparr>"
  have "messages groupchat = []" by (simp add: groupchat_def)
  then have a: "custom_speaker_selection user_proxy groupchat = Inl IndexError"
    using custom_speaker_selection_needs_messages [of groupchat user_proxy] by blast
  have one: "length (messages ?gc) = 1" by simp
  then have b: "penultimate_speaker_name ?gc = Inr PyNone"
    using custom_speaker_selection_needs_messages [of ?gc user_proxy] by blast
  have c: "custom_speaker_selection user_proxy ?gc = Inr Auto"
    by code_simp
  from a b c show ?thesis by simp
qed

section \<open>The file-reading tool reads the whole text\<close>

text \<open>Translating line endings leaves no carriage return, changes nothing in a text
  without one, and keeps every other character in its place.\<close>

lemma universal_newlines_no_cr: "CHR 0x0D \<notin> set (universal_newlines s)"
  by (induction s rule: universal_newlines.induct) auto

lemma universal_newlines_id: "CHR 0x0D \<notin> set s \<Longrightarrow> universal_newlines s = s"
  by (induction s rule: universal_newlines.induct) auto

lemma universal_newlines_keeps_others:
  "filter (\<lambda>c. c \<noteq> CHR 0x0D \<and> c \<noteq> CHR 0x0A) (universal_newlines s)
     = filter (\<lambda>c. c \<noteq> CHR 0x0D \<and> c \<noteq> CHR 0x0A) s"
  by (induction s rule: universal_newlines.induct) auto

text \<open>
  C6. For every path, when the file opens and its bytes decode, \<open>read_txt\<close> returns the
  whole text of the file as the text-mode read delivers it: all of the file's bytes,
  decoded with the platform's default encoding, with each \<open>CR LF\<close> and each lone \<open>CR\<close>
  translated to \<open>LF\<close> and every other character kept, none cut off. So it returns the
  decoded contents exactly when they hold no carriage return. When opening fails, or
  reading does, \<open>read_txt\<close> ends in that very exception: nothing is caught, wrapped or
  replaced.
\<close>

theorem read_txt_whole_text:
  "(map_of (files pf) path = Some (RegularFile bytes) \<and> decode pf bytes = Inr decoded \<longrightarrow>
      read_txt pf path = Inr (universal_newlines decoded) \<and>
      (\<forall>r. read_txt pf path = Inr r \<longrightarrow>
         CHR 0x0D \<notin> set r \<and>
         filter (\<lambda>c. c \<noteq> CHR 0x0D \<and> c \<noteq> CHR 0x0A) r
           = filter (\<lambda>c. c \<noteq> CHR 0x0D \<and> c \<noteq> CHR 0x0A) decoded) \<and>
      (CHR 0x0D \<notin> set decoded \<longrightarrow> read_txt pf path = Inr decoded)) \<and>
   (open_text pf path = Inl e \<longrightarrow> read_txt pf path = Inl e) \<and>
   (open_text pf path = Inr file \<and> file_read pf file (- 1) = Inl e \<longrightarrow>
      read_txt pf path = Inl e) \<and>
   (map_of (files pf) path = Some (RegularFile bytes) \<and> decode pf bytes = Inl e \<longrightarrow>
      read_txt pf path = Inl e)"
proof (intro conjI impI allI)
  assume h: "map_of (files pf) path = Some (RegularFile bytes) \<and> decode pf bytes = Inr decoded"
  then show whole: "read_txt pf path = Inr (universal_newlines decoded)"
    by (simp add: read_txt_def open_text_def)
  {
    fix r
    assume "read_txt pf path = Inr r"
    with whole have r: "r = universal_newlines decoded" by simp
    show "CHR 0x0D \<notin> set r"
      unfolding r by (rule universal_newlines_no_cr)
    show "filter (\<lambda>c. c \<noteq> CHR 0x0D \<and> c \<noteq> CHR 0x0A) r
           = filter (\<lambda>c. c \<noteq> CHR 0x0D \<and> c \<noteq> CHR 0x0A) decoded"
      unfolding r by (rule universal_newlines_keeps_others)
  }
  {
    assume "CHR 0x0D \<notin> set decoded"
    then show "read_txt pf path = Inr decoded"
      using whole by (simp add: universal_newlines_id)
  }
next
  assume "open_text pf path = Inl e"
  then show "read_txt pf path = Inl e"
    by (simp add: read_txt_def)
next
  assume "open_text pf path = Inr file \<and> file_read pf file (- 1) = Inl e"
  then show "read_txt pf path = Inl e"
    by (simp add: read_txt_def)
next
  assume "map_of (files pf) path = Some (RegularFile bytes) \<and> decode pf bytes = Inl e"
  then show "read_txt pf path = Inl e"
    by (simp add: read_txt_def open_text_def)
qed

theorem read_txt_whole_text_witness:
  "read_txt demo_platform ''data/cv.txt'' = Inr ''Daniel Puente Viejo'' \<and>
   read_txt demo_platform ''data/missing.txt'' = Inl FileNotFoundError \<and>
   read_txt demo_platform ''data'' = Inl IsADirectoryError \<and>
   read_txt demo_platform ''imgs/cover_page.png'' = Inl UnicodeDecodeError"
proof -
  have f1: "map_of (files demo_platform) ''data/cv.txt''
              = Some (RegularFile ''Daniel Puente Viejo'')"
    by (simp add: demo_platform_def)
  have d1: "decode demo_platform ''Daniel Puente Viejo'' = Inr ''Daniel Puente Viejo''"
    by (simp add: demo_platform_def ascii_codec_def)
  have n1: "CHR 0x0D \<notin> set ''Daniel Puente Viejo''"
    by simp
  have a: "read_txt demo_platform ''data/cv.txt'' = Inr ''Daniel Puente Viejo''"
    using read_txt_whole_text
      [of demo_platform "''data/cv.txt''" "''Daniel Puente Viejo''" "''Daniel Puente Viejo''"]
      f1 d1 n1
    by blast
  have "open_text demo_platform ''data/missing.txt'' = Inl FileNotFoundError"
    by (simp add: open_text_def demo_platform_def)
  then have b: "read_txt demo_platform ''data/missing.txt'' = Inl FileNotFoundError"
    using read_txt_whole_text [of demo_platform "''data/missing.txt''"] by blast
  have "open_text demo_platform ''data'' = Inl IsADirectoryError"
    by (simp add: open_text_def demo_platform_def)
  then have c: "read_txt demo_platform ''data'' = Inl IsADirectoryError"
    using read_txt_whole_text [of demo_platform "''data''"] by blast
  have f4: "map_of (files demo_platform) ''imgs/cover_page.png''
              = Some (RegularFile [CHR 0x89, CHR ''P'', CHR ''N'', CHR ''G''])"
    by (simp add: demo_platform_def)
  have d4: "decode demo_platform [CHR 0x89, CHR ''P'', CHR ''N'', CHR ''G'']
              = Inl UnicodeDecodeError"
    by (simp add: demo_platform_def ascii_codec_def)
  have d: "read_txt demo_platform ''imgs/cover_page.png'' = Inl UnicodeDecodeError"
    using read_txt_whole_text
      [of demo_platform "''imgs/cover_page.png''" "[CHR 0x89, CHR ''P'', CHR ''N'', CHR ''G'']"]
      f4 d4
    by blast
  from a b c d show ?thesis by simp
qed

text \<open>
  What is returned is not always the contents of the file as they are. The copy of the
  course list with \<open>CR LF\<close> line ends holds six bytes, all ASCII; the tool returns five
  characters, the carriage return gone.
\<close>

theorem read_txt_newline_counterexample:
  "map_of (files demo_platform) ''data/courses_crlf.txt''
     = Some (RegularFile [CHR ''1'', CHR ''.'', CHR 0x0D, CHR 0x0A, CHR ''2'', CHR ''.'']) \<and>
   read_txt demo_platform ''data/courses_crlf.txt''
     = Inr [CHR ''1'', CHR ''.'', CHR 0x0A, CHR ''2'', CHR ''.''] \<and>
   read_txt demo_platform ''data/courses_crlf.txt''
     \<noteq> Inr [CHR ''1'', CHR ''.'', CHR 0x0D, CHR 0x0A, CHR ''2'', CHR ''.'']"
proof -
  have a: "map_of (files demo_platform) ''data/courses_crlf.txt''
     = Some (RegularFile [CHR ''1'', CHR ''.'', CHR 0x0D, CHR 0x0A, CHR ''2'', CHR ''.''])"
    by (simp add: demo_platform_def)
  have b: "read_txt demo_platform ''data/courses_crlf.txt''
     = Inr [CHR ''1'', CHR ''.'', CHR 0x0A, CHR ''2'', CHR ''.'']"
    by code_simp
  from a b show ?thesis by simp
qed

section \<open>The configured group chat\<close>

text \<open>
  C7. The group chat is set up with exactly five participants, named \<^verbatim>\<open>User\<close>,
  \<^verbatim>\<open>CV Analyser\<close>, \<^verbatim>\<open>Skills Extractor\<close>, \<^verbatim>\<open>Courses recommender\<close> and
  \<^verbatim>\<open>Resolution Checker Agent\<close>. Exactly one of them, the user proxy, is an executor of a
  registered tool, and every registration is of \<open>read_txt\<close> with the user proxy as its
  executor. Whatever the transcript and the last speaker, an agent the selection returns
  on this group chat is one of the five.
\<close>

theorem groupchat_participants:
  "map name (agents groupchat) =
     [''User'', ''CV Analyser'', ''Skills Extractor'', ''Courses recommender'',
      ''Resolution Checker Agent''] \<and>
   length (agents groupchat) = 5 \<and>
   filter (\<lambda>a. a \<in> set (map executor registered_functions)) (agents groupchat) = [user_proxy] \<and>
   (\<forall>r \<in> set registered_functions. func r = ''read_txt'' \<and> executor r = user_proxy) \<and>
   (\<forall>ls msgs a. custom_speaker_selection ls (groupchat\<lparr>messages := msgs\<rparr>) = Inr (Speaker a)
      \<longrightarrow> a \<in> set (agents groupchat))"
proof (intro conjI allI impI)
  show "map name (agents groupchat) =
     [''User'', ''CV Analyser'', ''Skills Extractor'', ''Courses recommender'',
      ''Resolution Checker Agent'']"
    by (simp add: groupchat_def user_proxy_def cv_analyser_def skills_extractor_def
        courses_recommender_def resolution_checker_def)
  show "length (agents groupchat) = 5"
    by (simp add: groupchat_def)
  show "filter (\<lambda>a. a \<in> set (map executor registered_functions)) (agents groupchat) = [user_proxy]"
    by (simp add: groupchat_def registered_functions_def user_proxy_def cv_analyser_def
        skills_extractor_def courses_recommender_def resolution_checker_def)
  show "\<forall>r \<in> set registered_functions. func r = ''read_txt'' \<and> executor r = user_proxy"
    by (simp add: registered_functions_def)
next
  fix ls msgs a
  assume "custom_speaker_selection ls (groupchat\<lparr>messages := msgs\<rparr>) = Inr (Speaker a)"
  then have "a \<in> set (agents (groupchat\<lparr>messages := msgs\<rparr>))"
    by (rule custom_speaker_selection_member)
  then show "a \<in> set (agents groupchat)" by simp
qed

theorem groupchat_participants_witness:
  "custom_speaker_selection courses_recommender
     (groupchat\<lparr>messages := [request, tool_call, tool_response, recommendation]\<rparr>)
     = Inr (Speaker resolution_checker) \<and>
   resolution_checker \<in> set (agents groupchat)"
proof -
  have r: "custom_speaker_selection courses_recommender
     (groupchat\<lparr>messages := [request, tool_call, tool_response, recommendation]\<rparr>)
     = Inr (Speaker resolution_checker)"
    by code_simp
  then have "resolution_checker \<in> set (agents groupchat)"
    using groupchat_participants by blast
  with r show ?thesis by simp
qed

end
